theory Spec2Isabelle
  imports Complex_Main
begin

section \<open>Python values\<close>

text \<open>
  A Python \<open>str\<close> is a sequence of Unicode code points. A code point is a natural
  number here, so that the fallback page of \<open>root\<close> (which holds U+0131) and the
  whitespace that \<open>str.strip\<close> removes beyond ASCII are both representable.
  \<open>u\<close> reads an ASCII literal as such a string.
\<close>

type_synonym ustr = "nat list"

definition u :: "string \<Rightarrow> ustr" where
  "u s = map of_char s"

text \<open>
  The request body is what the framework hands to \<open>chat\<close>: a parsed JSON object, a
  \<open>Dict[str, Any]\<close>. A JSON value is \<open>None\<close>, a \<open>bool\<close>, an \<open>int\<close>, a \<open>float\<close>, a
  \<open>str\<close>, a \<open>list\<close> or a \<open>dict\<close>. The type \<open>'f\<close> stands for Python's \<open>float\<close>: no
  floating-point arithmetic is modelled, the few operations on floats that the code
  uses are fields of the \<open>world\<close> below.
\<close>

datatype 'f json =
    JNull
  | JBool bool
  | JInt int
  | JFloat 'f
  | JStr ustr
  | JList "'f json list"
  | JObj "(ustr \<times> 'f json) list"

type_synonym 'f body = "ustr \<rightharpoonup> 'f json"

text \<open>
  An instance of \<open>Exception\<close>, which is what \<open>except Exception\<close> catches, carried by what
  \<open>str(e)\<close> gives. \<open>KeyboardInterrupt\<close>, \<open>SystemExit\<close> and the like are not modelled.
\<close>

datatype exn = Exception ustr

fun str :: "exn \<Rightarrow> ustr" where
  "str (Exception s) = s"

text \<open>\<open>fastapi.HTTPException(status_code=..., detail=...)\<close>.\<close>

datatype HTTPException = HTTPException (status_code: nat) (detail: ustr)

text \<open>
  The keyword arguments of one \<open>client.chat.completions.create\<close> call, and the part of
  the SDK's answer that the code reads: \<open>resp.choices[0].message.content\<close>, which is a
  \<open>str\<close> or \<open>None\<close>.
\<close>

datatype 'f call = Call (model: "'f json") (messages: "'f json list") (temperature: 'f)

datatype message = ChatCompletionMessage (content: "ustr option")
datatype choice = Choice (message: message)
datatype completion = ChatCompletion (choices: "choice list")

text \<open>
  The path \<open>index.html\<close> beside the module: \<open>idx.exists()\<close> is false; or it is true and
  opening the path for reading raises (a directory, a file that may not be read); or it
  is a file that opens, with these bytes as contents. A byte is a \<open>char\<close>.
\<close>

datatype path_state = Absent | Unreadable exn | File "char list"

text \<open>
  Everything outside the module that its three handlers read:
  \<^item> \<open>OPENAI_API_KEY\<close>: the module-level constant, \<open>os.getenv("OPENAI_API_KEY")\<close>, a \<open>str\<close>
    or \<open>None\<close>, read once at import;
  \<^item> \<open>index_html\<close>: the state of the file \<open>root\<close> looks for;
  \<^item> \<open>decode_error\<close>: the \<open>UnicodeDecodeError\<close> that the UTF-8 codec raises on bytes it
    rejects;
  \<^item> \<open>create\<close>: the provider call, which returns a completion or raises;
  \<^item> \<open>float_of_int\<close>: Python's \<open>float(n)\<close> on an \<open>int\<close>, which returns a float or raises
    \<open>OverflowError\<close>;
  \<^item> \<open>float_of_str\<close>: \<open>float(s)\<close> on a \<open>str\<close>, which returns the float the string spells or
    raises \<open>ValueError\<close>;
  \<^item> \<open>float_type_error\<close>: the \<open>TypeError\<close> that \<open>float(v)\<close> raises on a value that is neither
    a number nor a string;
  \<^item> \<open>float_truthy\<close>: \<open>bool(x)\<close> of a float \<open>x\<close>;
  \<^item> \<open>float_0_7\<close>: the float literal \<open>0.7\<close>.
  The construction of the SDK client at import time is no part of a handler and is not
  modelled.
\<close>

record 'f world =
  OPENAI_API_KEY :: "ustr option"
  index_html :: path_state
  decode_error :: "char list \<Rightarrow> exn"
  create :: "'f call \<Rightarrow> exn + completion"
  float_of_int :: "int \<Rightarrow> exn + 'f"
  float_of_str :: "ustr \<Rightarrow> exn + 'f"
  float_type_error :: "'f json \<Rightarrow> exn"
  float_truthy :: "'f \<Rightarrow> bool"
  float_0_7 :: 'f

subsection \<open>Built-ins the handlers use\<close>

text \<open>Truth value testing: \<open>bool(v)\<close>.\<close>

fun truthy :: "'f world \<Rightarrow> 'f json \<Rightarrow> bool" where
  "truthy w JNull = False"
| "truthy w (JBool b) = b"
| "truthy w (JInt n) = (n \<noteq> 0)"
| "truthy w (JFloat x) = float_truthy w x"
| "truthy w (JStr s) = (s \<noteq> [])"
| "truthy w (JList xs) = (xs \<noteq> [])"
| "truthy w (JObj kvs) = (kvs \<noteq> [])"

text \<open>Truth value of an \<open>Optional[str]\<close>: \<open>None\<close> and the empty string are false.\<close>

fun truthy_opt_str :: "ustr option \<Rightarrow> bool" where
  "truthy_opt_str None = False"
| "truthy_opt_str (Some s) = (s \<noteq> [])"

text \<open>\<open>a or b\<close>.\<close>

definition py_or :: "'f world \<Rightarrow> 'f json \<Rightarrow> 'f json \<Rightarrow> 'f json" where
  "py_or w a b = (if truthy w a then a else b)"

text \<open>\<open>d.get(k)\<close> and \<open>d.get(k, default)\<close>.\<close>

definition dict_get :: "'f body \<Rightarrow> ustr \<Rightarrow> 'f json" where
  "dict_get d k = (case d k of None \<Rightarrow> JNull | Some v \<Rightarrow> v)"

definition dict_get_default :: "'f body \<Rightarrow> ustr \<Rightarrow> 'f json \<Rightarrow> 'f json" where
  "dict_get_default d k dflt = (case d k of None \<Rightarrow> dflt | Some v \<Rightarrow> v)"

text \<open>
  \<open>float(v)\<close>: a float is returned as it is, a \<open>bool\<close> is the \<open>int\<close> 0 or 1, and \<open>None\<close>, a
  \<open>list\<close> and a \<open>dict\<close> raise \<open>TypeError\<close>.
\<close>

fun py_float :: "'f world \<Rightarrow> 'f json \<Rightarrow> exn + 'f" where
  "py_float w (JFloat x) = Inr x"
| "py_float w (JInt n) = float_of_int w n"
| "py_float w (JBool b) = float_of_int w (if b then 1 else 0)"
| "py_float w (JStr s) = float_of_str w s"
| "py_float w v = Inl (float_type_error w v)"

text \<open>
  \<open>str.isspace\<close> on one code point, as CPython decides it: U+0009 to U+000D, U+001C to
  U+0020, U+0085, U+00A0, U+1680, U+2000 to U+200A, U+2028, U+2029, U+202F, U+205F and
  U+3000.
\<close>

definition isspace :: "nat \<Rightarrow> bool" where
  "isspace c = ((9 \<le> c \<and> c \<le> 13) \<or> (28 \<le> c \<and> c \<le> 32) \<or> c = 133 \<or> c = 160 \<or> c = 5760
     \<or> (8192 \<le> c \<and> c \<le> 8202) \<or> c = 8232 \<or> c = 8233 \<or> c = 8239 \<or> c = 8287 \<or> c = 12288)"

text \<open>\<open>s.strip()\<close>: leading and trailing whitespace removed.\<close>

definition strip :: "ustr \<Rightarrow> ustr" where
  "strip s = rev (dropWhile isspace (rev (dropWhile isspace s)))"

text \<open>
  The strict UTF-8 codec, on the values of the bytes: the code points of a well-formed
  sequence, or \<open>None\<close> where the codec raises. A lead byte C2 to DF takes one continuation
  byte, E0 to EF two, F0 to F4 three; the second byte is narrowed after E0, ED, F0 and F4,
  which leaves out overlong forms, the surrogates and everything above U+10FFFF. A byte
  order mark is decoded like any other character.
\<close>

definition continuation :: "nat \<Rightarrow> bool" where
  "continuation b = (128 \<le> b \<and> b \<le> 191)"

fun utf8_decode :: "nat list \<Rightarrow> ustr option" where
  "utf8_decode [] = Some []"
| "utf8_decode (b # bs) =
     (if b < 128 then map_option ((#) b) (utf8_decode bs)
      else if 194 \<le> b \<and> b \<le> 223 then
        (case bs of
           c # r \<Rightarrow>
             if continuation c
             then map_option ((#) ((b - 192) * 64 + (c - 128))) (utf8_decode r)
             else None
         | _ \<Rightarrow> None)
      else if 224 \<le> b \<and> b \<le> 239 then
        (case bs of
           c # d # r \<Rightarrow>
             if (if b = 224 then 160 else 128) \<le> c \<and> c \<le> (if b = 237 then 159 else 191) \<and>
                continuation d
             then map_option ((#) ((b - 224) * 4096 + (c - 128) * 64 + (d - 128))) (utf8_decode r)
             else None
         | _ \<Rightarrow> None)
      else if 240 \<le> b \<and> b \<le> 244 then
        (case bs of
           c # d # e # r \<Rightarrow>
             if (if b = 240 then 144 else 128) \<le> c \<and> c \<le> (if b = 244 then 143 else 191) \<and>
                continuation d \<and> continuation e
             then map_option
                    ((#) ((b - 240) * 262144 + (c - 128) * 4096 + (d - 128) * 64 + (e - 128)))
                    (utf8_decode r)
             else None
         | _ \<Rightarrow> None)
      else None)"

text \<open>
  Universal newlines, the default of a file opened in text mode: on reading, every CR LF
  pair and every other CR (code point 13) becomes one LF (code point 10).
\<close>

fun universal_newlines :: "ustr \<Rightarrow> ustr" where
  "universal_newlines [] = []"
| "universal_newlines [c] = [if c = 13 then 10 else c]"
| "universal_newlines (c # d # cs) =
     (if c = 13
      then (if d = 10 then 10 # universal_newlines cs else 10 # universal_newlines (d # cs))
      else c # universal_newlines (d # cs))"

text \<open>
  \<open>Path.read_text(encoding="utf-8")\<close> on a file that opened, with contents \<open>bs\<close>: the bytes
  are decoded, which may raise, and the newlines of the text are translated.
\<close>

definition read_text :: "'f world \<Rightarrow> char list \<Rightarrow> exn + ustr" where
  "read_text w bs =
     (case utf8_decode (map of_char bs) of
        None \<Rightarrow> Inl (decode_error w bs)
      | Some text \<Rightarrow> Inr (universal_newlines text))"

text \<open>\<open>fastapi.responses.HTMLResponse(content)\<close>: status 200, media type \<open>text/html\<close>.\<close>

record response =
  resp_status :: nat
  media_type :: ustr
  resp_content :: ustr

definition HTMLResponse :: "ustr \<Rightarrow> response" where
  "HTMLResponse c = \<lparr>resp_status = 200, media_type = u ''text/html'', resp_content = c\<rparr>"

section \<open>The routes\<close>

text \<open>\<open>GET /api/health\<close>. The returned dict, in insertion order.\<close>

definition health :: "'f world \<Rightarrow> (ustr \<times> 'f json) list" where
  "health w =
     [(u ''ok'', JBool True),
      (u ''provider'',
         JStr (if truthy_opt_str (OPENAI_API_KEY w) then u ''openai'' else u ''unset''))]"

text \<open>
  \<open>GET /\<close>, the handler \<open>root\<close> (the name is taken by the n-th root of the library). An
  exception of \<open>read_text\<close>, from opening the file or from decoding it, is not caught: it
  leaves the handler.
\<close>

definition fallback_html :: ustr where
  "fallback_html = u ''<h1>AI Hub Backend</h1><p>Index bulunamad'' @ [305] @ u ''.</p>''"

definition root_page :: "'f world \<Rightarrow> exn + response" where
  "root_page w =
     (case index_html w of
        File bs \<Rightarrow>
          (case read_text w bs of Inl e \<Rightarrow> Inl e | Inr text \<Rightarrow> Inr (HTMLResponse text))
      | Unreadable e \<Rightarrow> Inl e
      | Absent \<Rightarrow> Inr (HTMLResponse fallback_html))"

text \<open>
  \<open>POST /api/chat\<close>. The result is what the handler raises (\<open>Inl\<close>) or returns (\<open>Inr\<close>,
  the dict \<open>{"model": model, "output": text}\<close>), together with the provider calls it
  made, in order. \<open>attempt\<close> is the body of the \<open>try\<close>: the arguments of \<open>create\<close> are
  evaluated before the call, so a failing \<open>float(...)\<close> makes no call, and
  \<open>resp.choices[0]\<close> raises \<open>IndexError\<close> on an empty list. The one \<open>except\<close> clause
  turns whatever \<open>attempt\<close> raised into the status 500.
\<close>

definition chat :: "'f world \<Rightarrow> 'f body \<Rightarrow> (HTTPException + 'f json) \<times> 'f call list" where
  "chat w body =
     (if \<not> truthy_opt_str (OPENAI_API_KEY w)
      then (Inl (HTTPException 500 (u ''OPENAI_API_KEY missing'')), [])
      else
        let model = py_or w (dict_get body (u ''model'')) (JStr (u ''gpt-4o-mini''));
            resolved =
              (case body (u ''messages'') of
                 Some (JList ms) \<Rightarrow> Inr ms
               | _ \<Rightarrow>
                  (case dict_get body (u ''input'') of
                     JStr user_text \<Rightarrow>
                       if strip user_text = []
                       then Inl (HTTPException 400 (u ''Provide 'input' (string) or 'messages' (list).''))
                       else Inr [JObj [(u ''role'', JStr (u ''user'')),
                                       (u ''content'', JStr (strip user_text))]]
                   | _ \<Rightarrow> Inl (HTTPException 400 (u ''Provide 'input' (string) or 'messages' (list).''))))
        in case resolved of
             Inl e \<Rightarrow> (Inl e, [])
           | Inr msgs \<Rightarrow>
              let attempt =
                (case py_float w (dict_get_default body (u ''temperature'') (JFloat (float_0_7 w))) of
                   Inl e \<Rightarrow> (Inl e, [])
                 | Inr t \<Rightarrow>
                    (case create w (Call model msgs t) of
                       Inl e \<Rightarrow> (Inl e, [Call model msgs t])
                     | Inr resp \<Rightarrow>
                        (case choices resp of
                           [] \<Rightarrow> (Inl (Exception (u ''list index out of range'')), [Call model msgs t])
                         | c # _ \<Rightarrow>
                            (Inr (JObj [(u ''model'', model),
                                        (u ''output'', (case content (message c) of
                                                          None \<Rightarrow> JNull | Some text \<Rightarrow> JStr text))]),
                             [Call model msgs t]))))
              in (case fst attempt of
                    Inl e \<Rightarrow> Inl (HTTPException 500 (u ''OpenAI error: '' @ str e))
                  | Inr v \<Rightarrow> Inr v,
                  snd attempt))"

text \<open>
  What the framework answers: the status of a raised \<open>HTTPException\<close>, and 200 for a
  handler that returns.
\<close>

definition http_status :: "HTTPException + 'a \<Rightarrow> nat" where
  "http_status r = (case r of Inl e \<Rightarrow> status_code e | Inr v \<Rightarrow> 200)"

section \<open>The vocabulary of the specification\<close>

text \<open>A provider credential is configured: the constant is a non-empty string.\<close>

definition credential_configured :: "'f world \<Rightarrow> bool" where
  "credential_configured w = truthy_opt_str (OPENAI_API_KEY w)"

text \<open>The body has a field \<open>messages\<close> whose value is a list.\<close>

definition messages_is_list :: "'f body \<Rightarrow> bool" where
  "messages_is_list body = (case body (u ''messages'') of Some (JList ms) \<Rightarrow> True | _ \<Rightarrow> False)"

text \<open>A string with non-whitespace content, and a body whose \<open>input\<close> is one.\<close>

definition nonblank :: "ustr \<Rightarrow> bool" where
  "nonblank s = list_ex (\<lambda>c. \<not> isspace c) s"

definition input_is_nonblank_str :: "'f body \<Rightarrow> bool" where
  "input_is_nonblank_str body =
     (case body (u ''input'') of Some (JStr s) \<Rightarrow> nonblank s | _ \<Rightarrow> False)"

text \<open>The message \<open>{"role": "user", "content": t}\<close>.\<close>

definition user_message :: "ustr \<Rightarrow> 'f json" where
  "user_message t = JObj [(u ''role'', JStr (u ''user'')), (u ''content'', JStr t)]"

text \<open>The temperature of the request, coerced: \<open>float(body.get("temperature", 0.7))\<close>.\<close>

definition coerced_temperature :: "'f world \<Rightarrow> 'f body \<Rightarrow> exn + 'f" where
  "coerced_temperature w body =
     py_float w (dict_get_default body (u ''temperature'') (JFloat (float_0_7 w)))"

text \<open>A value that is neither a number nor a string: \<open>null\<close>, a list or an object.\<close>

fun neither_number_nor_string :: "'f json \<Rightarrow> bool" where
  "neither_number_nor_string JNull = True"
| "neither_number_nor_string (JList xs) = True"
| "neither_number_nor_string (JObj kvs) = True"
| "neither_number_nor_string v = False"

text \<open>
  The invariant the specification gives for a chat request, in its words: \<open>messages\<close> is
  a non-empty ordered sequence, or \<open>input\<close> is a non-empty string after trimming.
\<close>

definition ChatRequest_invariant :: "'f body \<Rightarrow> bool" where
  "ChatRequest_invariant body =
     ((case body (u ''messages'') of Some (JList ms) \<Rightarrow> ms \<noteq> [] | _ \<Rightarrow> False) \<or>
      (case body (u ''input'') of Some (JStr s) \<Rightarrow> strip s \<noteq> [] | _ \<Rightarrow> False))"

text \<open>
  The model of the specification, in its words: the \<open>model\<close> field when it is present and
  non-empty, the fixed default otherwise. A string, a list and an object can be empty;
  \<open>null\<close> stands for no value; a number and a boolean are values that are not empty.
\<close>

fun present_and_nonempty :: "'f json option \<Rightarrow> bool" where
  "present_and_nonempty None = False"
| "present_and_nonempty (Some JNull) = False"
| "present_and_nonempty (Some (JStr s)) = (s \<noteq> [])"
| "present_and_nonempty (Some (JList xs)) = (xs \<noteq> [])"
| "present_and_nonempty (Some (JObj kvs)) = (kvs \<noteq> [])"
| "present_and_nonempty (Some v) = True"

definition spec_model :: "'f body \<Rightarrow> 'f json" where
  "spec_model body =
     (case body (u ''model'') of
        Some v \<Rightarrow> if present_and_nonempty (Some v) then v else JStr (u ''gpt-4o-mini'')
      | None \<Rightarrow> JStr (u ''gpt-4o-mini''))"

text \<open>The model the code resolves: the field when it is there and true in Python's sense.\<close>

definition resolved_model :: "'f world \<Rightarrow> 'f body \<Rightarrow> 'f json" where
  "resolved_model w body =
     (case body (u ''model'') of
        Some v \<Rightarrow> if truthy w v then v else JStr (u ''gpt-4o-mini'')
      | None \<Rightarrow> JStr (u ''gpt-4o-mini''))"

text \<open>
  What \<open>chat\<close> does once the model \<open>m\<close> and the message list \<open>ms\<close> are resolved, given
  the outcome \<open>ft\<close> of the coercion of the temperature. The lemmas \<open>chat_messages\<close> and
  \<open>chat_input\<close> below show that \<open>chat\<close> ends this way.
\<close>

definition provider_stage ::
  "'f world \<Rightarrow> 'f json \<Rightarrow> 'f json list \<Rightarrow> exn + 'f \<Rightarrow> (HTTPException + 'f json) \<times> 'f call list" where
  "provider_stage w m ms ft =
     (case ft of
        Inl e \<Rightarrow> (Inl (HTTPException 500 (u ''OpenAI error: '' @ str e)), [])
      | Inr t \<Rightarrow>
         (case create w (Call m ms t) of
            Inl e \<Rightarrow> (Inl (HTTPException 500 (u ''OpenAI error: '' @ str e)), [Call m ms t])
          | Inr resp \<Rightarrow>
             (case choices resp of
                [] \<Rightarrow> (Inl (HTTPException 500 (u ''OpenAI error: list index out of range'')),
                       [Call m ms t])
              | c # _ \<Rightarrow>
                 (Inr (JObj [(u ''model'', m),
                             (u ''output'', (case content (message c) of
                                               None \<Rightarrow> JNull | Some text \<Rightarrow> JStr text))]),
                  [Call m ms t]))))"

section \<open>A world to run the handlers in\<close>

text \<open>
  Floats are rationals here: every \<open>int\<close> converts, no string does, and the texts of the
  exceptions are not Python's. The provider of \<open>example_world\<close> answers every call with one
  choice, \<open>pong\<close>.
\<close>

definition example_world :: "rat world" where
  "example_world =
     \<lparr>OPENAI_API_KEY = Some (u ''sk-test''),
      index_html = Absent,
      decode_error = (\<lambda>bs. Exception (u ''invalid start byte'')),
      create = (\<lambda>c. Inr (ChatCompletion [Choice (ChatCompletionMessage (Some (u ''pong'')))])),
      float_of_int = (\<lambda>n. Inr (of_int n)),
      float_of_str = (\<lambda>s. Inl (Exception (u ''could not convert string to float''))),
      float_type_error = (\<lambda>v. Exception (u ''float() argument must be a string or a real number'')),
      float_truthy = (\<lambda>x. x \<noteq> 0),
      float_0_7 = 7 / 10\<rparr>"

section \<open>Strings and keys\<close>

lemma u_append: "u (a @ b) = u a @ u b"
  by (simp add: u_def)

lemma keys_distinct:
  "u ''input'' \<noteq> u ''messages''" "u ''input'' \<noteq> u ''model''" "u ''input'' \<noteq> u ''temperature''"
  "u ''messages'' \<noteq> u ''input''" "u ''messages'' \<noteq> u ''model''" "u ''messages'' \<noteq> u ''temperature''"
  "u ''model'' \<noteq> u ''input''" "u ''model'' \<noteq> u ''messages''" "u ''model'' \<noteq> u ''temperature''"
  "u ''temperature'' \<noteq> u ''input''" "u ''temperature'' \<noteq> u ''messages''" "u ''temperature'' \<noteq> u ''model''"
  by (simp_all add: u_def)

text \<open>Stripping leaves nothing exactly when every code point is whitespace.\<close>

lemma strip_empty_iff: "strip s = [] \<longleftrightarrow> (\<forall>c\<in>set s. isspace c)"
proof
  assume "strip s = []"
  then have all: "\<forall>c\<in>set (dropWhile isspace s). isspace c"
    by (simp add: strip_def dropWhile_eq_Nil_conv)
  have "dropWhile isspace s = []"
  proof (rule ccontr)
    assume ne: "dropWhile isspace s \<noteq> []"
    then have "hd (dropWhile isspace s) \<in> set (dropWhile isspace s)" by simp
    with all have "isspace (hd (dropWhile isspace s))" by blast
    moreover from ne have "\<not> isspace (hd (dropWhile isspace s))" by (rule hd_dropWhile)
    ultimately show False by contradiction
  qed
  then show "\<forall>c\<in>set s. isspace c" by (simp add: dropWhile_eq_Nil_conv)
next
  assume "\<forall>c\<in>set s. isspace c"
  then have "dropWhile isspace s = []" by (simp add: dropWhile_eq_Nil_conv)
  then show "strip s = []" by (simp only: strip_def rev.simps dropWhile.simps)
qed

lemma nonblank_strip: "nonblank s \<longleftrightarrow> strip s \<noteq> []"
  by (auto simp: nonblank_def strip_empty_iff list_ex_iff)

lemma dict_get_Some: "d k = Some v \<Longrightarrow> dict_get d k = v"
  by (simp add: dict_get_def)

lemma resolved_model_py_or:
  "py_or w (dict_get body (u ''model'')) (JStr (u ''gpt-4o-mini'')) = resolved_model w body"
  by (simp add: py_or_def dict_get_def resolved_model_def split: option.splits)

lemma messages_not_list:
  "\<not> messages_is_list body \<Longrightarrow>
     (case body (u ''messages'') of Some (JList ms) \<Rightarrow> f ms | _ \<Rightarrow> X) = X"
  by (simp add: messages_is_list_def split: option.splits json.splits)

section \<open>Decoding and newlines\<close>

text \<open>A translated text holds no CR, and a text without CR is left as it is.\<close>

lemma universal_newlines_no_cr: "13 \<notin> set (universal_newlines t)"
  by (induction t rule: universal_newlines.induct) auto

lemma universal_newlines_id: "13 \<notin> set t \<Longrightarrow> universal_newlines t = t"
  by (induction t rule: universal_newlines.induct) auto

lemma universal_newlines_verbatim_iff: "universal_newlines t = t \<longleftrightarrow> 13 \<notin> set t"
  using universal_newlines_no_cr [of t] universal_newlines_id [of t] by auto

text \<open>ASCII bytes decode to themselves.\<close>

lemma utf8_decode_ascii_Cons:
  "b < 128 \<Longrightarrow> utf8_decode (b # bs) = map_option ((#) b) (utf8_decode bs)"
  by simp

lemma utf8_decode_ascii: "\<forall>b\<in>set bs. b < 128 \<Longrightarrow> utf8_decode bs = Some bs"
  by (induction bs) (simp_all add: utf8_decode_ascii_Cons del: utf8_decode.simps(2))

section \<open>The four ways through \<open>chat\<close>\<close>

lemma chat_unconfigured:
  "\<not> credential_configured w \<Longrightarrow>
     chat w body = (Inl (HTTPException 500 (u ''OPENAI_API_KEY missing'')), [])"
  by (simp add: chat_def credential_configured_def)

lemma chat_rejected:
  assumes "credential_configured w" "\<not> messages_is_list body" "\<not> input_is_nonblank_str body"
  shows "chat w body =
           (Inl (HTTPException 400 (u ''Provide 'input' (string) or 'messages' (list).'')), [])"
  using assms
  by (auto simp: chat_def credential_configured_def messages_is_list_def input_is_nonblank_str_def
        nonblank_strip dict_get_def Let_def
      split: option.splits json.splits)

lemma chat_messages:
  assumes "credential_configured w" "body (u ''messages'') = Some (JList ms)"
  shows "chat w body = provider_stage w (resolved_model w body) ms (coerced_temperature w body)"
  using assms
  by (simp add: chat_def credential_configured_def resolved_model_py_or coerced_temperature_def
        provider_stage_def Let_def u_append[symmetric]
      split: sum.splits list.splits)

lemma chat_input:
  assumes "credential_configured w" "\<not> messages_is_list body"
    "body (u ''input'') = Some (JStr s)" "nonblank s"
  shows "chat w body =
           provider_stage w (resolved_model w body) [user_message (strip s)] (coerced_temperature w body)"
proof -
  from assms(4) have ne: "strip s \<noteq> []" by (simp add: nonblank_strip)
  show ?thesis
    using assms(1) assms(3) ne
    by (simp add: chat_def messages_not_list[OF assms(2)] credential_configured_def
          resolved_model_py_or coerced_temperature_def provider_stage_def Let_def
          u_append[symmetric] dict_get_Some user_message_def
        split: sum.splits list.splits)
qed

lemma provider_stage_calls:
  "snd (provider_stage w m ms ft) = (case ft of Inl e \<Rightarrow> [] | Inr t \<Rightarrow> [Call m ms t])"
  by (simp add: provider_stage_def split: sum.splits list.splits)

lemma provider_stage_status:
  "http_status (fst (provider_stage w m ms ft)) \<noteq> 400"
  by (simp add: provider_stage_def http_status_def split: sum.splits list.splits)

lemma example_configured: "credential_configured example_world"
  by (simp add: credential_configured_def example_world_def u_def)

lemma chat_calls_messages:
  assumes "body (u ''messages'') = Some (JList ms)"
  shows "map messages (snd (chat w body)) =
           (if credential_configured w \<and> \<not> isl (coerced_temperature w body) then [ms] else [])"
proof (cases "credential_configured w")
  case True
  from chat_messages [of w body ms] True assms show ?thesis
    using True by (simp add: provider_stage_calls split: sum.splits)
next
  case False
  then show ?thesis by (simp add: chat_unconfigured)
qed

lemma chat_calls_input:
  assumes "\<not> messages_is_list body" "body (u ''input'') = Some (JStr s)" "nonblank s"
  shows "map messages (snd (chat w body)) =
           (if credential_configured w \<and> \<not> isl (coerced_temperature w body)
            then [[user_message (strip s)]] else [])"
proof (cases "credential_configured w")
  case True
  from chat_input [of w body s] True assms show ?thesis
    using True by (simp add: provider_stage_calls split: sum.splits)
next
  case False
  then show ?thesis by (simp add: chat_unconfigured)
qed

lemma chat_input_ignored:
  assumes "body (u ''messages'') = Some (JList ms)"
  shows "chat w (body(u ''input'' := x)) = chat w body"
  using assms
  by (simp add: chat_def keys_distinct dict_get_def dict_get_default_def Let_def)

lemma default_temperature:
  "body (u ''temperature'') = None \<Longrightarrow> coerced_temperature w body = Inr (float_0_7 w)"
  by (simp add: coerced_temperature_def dict_get_default_def)

text \<open>Every request goes one of the four ways.\<close>

lemma chat_cases:
  obtains (unconfigured) "\<not> credential_configured w"
      "chat w body = (Inl (HTTPException 500 (u ''OPENAI_API_KEY missing'')), [])"
  | (rejected) "credential_configured w" "\<not> messages_is_list body" "\<not> input_is_nonblank_str body"
      "chat w body = (Inl (HTTPException 400 (u ''Provide 'input' (string) or 'messages' (list).'')), [])"
  | (messages) ms where "credential_configured w" "body (u ''messages'') = Some (JList ms)"
      "chat w body = provider_stage w (resolved_model w body) ms (coerced_temperature w body)"
  | (input) s where "credential_configured w" "\<not> messages_is_list body"
      "body (u ''input'') = Some (JStr s)" "nonblank s"
      "chat w body = provider_stage w (resolved_model w body) [user_message (strip s)] (coerced_temperature w body)"
proof (cases "credential_configured w")
  case False
  then show ?thesis using unconfigured by (simp add: chat_unconfigured)
next
  case True
  show ?thesis
  proof (cases "messages_is_list body")
    case ml: True
    then obtain ms where ms: "body (u ''messages'') = Some (JList ms)"
      by (auto simp: messages_is_list_def split: option.splits json.splits)
    from chat_messages [of w body ms] True ms show ?thesis using messages by blast
  next
    case nl: False
    show ?thesis
    proof (cases "input_is_nonblank_str body")
      case False
      from chat_rejected [OF True nl False] show ?thesis using rejected True nl False by blast
    next
      case inp: True
      then obtain s where s: "body (u ''input'') = Some (JStr s)" "nonblank s"
        by (auto simp: input_is_nonblank_str_def split: option.splits json.splits)
      from chat_input [of w body s] True nl s show ?thesis using input by blast
    qed
  qed
qed

lemma provider_stage_coercion_fails:
  "provider_stage w m ms (Inl e) = (Inl (HTTPException 500 (u ''OpenAI error: '' @ str e)), [])"
  by (simp add: provider_stage_def)

lemma provider_stage_call_fails:
  assumes "c \<in> set (snd (provider_stage w m ms ft))"
  shows "(create w c = Inl e \<longrightarrow>
            provider_stage w m ms ft = (Inl (HTTPException 500 (u ''OpenAI error: '' @ str e)), [c])) \<and>
         (create w c = Inr (ChatCompletion []) \<longrightarrow>
            provider_stage w m ms ft = (Inl (HTTPException 500 (u ''OpenAI error: list index out of range'')), [c]))"
proof (cases ft)
  case (Inl a)
  with assms show ?thesis by (simp add: provider_stage_calls)
next
  case (Inr t)
  with assms have c: "c = Call m ms t" by (simp add: provider_stage_calls)
  show ?thesis by (simp add: c Inr provider_stage_def)
qed

lemma provider_stage_model:
  "(\<forall>c\<in>set (snd (provider_stage w m ms ft)). model c = m) \<and>
   (\<forall>out. fst (provider_stage w m ms ft) = Inr out \<longrightarrow>
      (\<exists>text. out = JObj [(u ''model'', m), (u ''output'', text)]) \<and>
      map model (snd (provider_stage w m ms ft)) = [m])"
  by (auto simp: provider_stage_def split: sum.splits list.splits)

section \<open>The claims\<close>

text \<open>
  C1, as stated, fails: the body \<open>{"messages": []}\<close> is accepted (status 200, the empty
  list sent to the provider), and it satisfies neither half of the invariant.
\<close>

theorem C1_counterexample:
  "http_status (fst (chat example_world [u ''messages'' \<mapsto> JList []])) = 200 \<and>
   snd (chat example_world [u ''messages'' \<mapsto> JList []]) = [Call (JStr (u ''gpt-4o-mini'')) [] (7 / 10)] \<and>
   \<not> ChatRequest_invariant ([u ''messages'' \<mapsto> JList []] :: rat body)"
  by (simp add: chat_def example_world_def keys_distinct py_or_def dict_get_def
        dict_get_default_def http_status_def ChatRequest_invariant_def u_def Let_def)

text \<open>
  C1, amended. For every request that is accepted (a credential is configured and the
  status is not 400), either \<open>messages\<close> is a list, possibly empty, and every provider call
  carries that list, or \<open>messages\<close> is absent or not a list, \<open>input\<close> is a string that is
  non-empty after trimming, and every provider call carries the one user message made of
  the trimmed \<open>input\<close>.
\<close>

theorem C1_accepted_request_shape:
  assumes "credential_configured w"
    and "http_status (fst (chat w body)) \<noteq> 400"
  shows "(\<exists>ms. body (u ''messages'') = Some (JList ms) \<and>
            (\<forall>c\<in>set (snd (chat w body)). messages c = ms)) \<or>
         (\<not> messages_is_list body \<and>
            (\<exists>s. body (u ''input'') = Some (JStr s) \<and> strip s \<noteq> [] \<and>
               (\<forall>c\<in>set (snd (chat w body)). messages c = [user_message (strip s)])))"
proof (cases rule: chat_cases [of w body])
  case unconfigured
  with assms show ?thesis by simp
next
  case rejected
  with assms show ?thesis by (simp add: http_status_def)
next
  case (messages ms)
  then show ?thesis
    by (auto simp: provider_stage_calls split: sum.splits)
next
  case (input s)
  then show ?thesis
    by (auto simp: provider_stage_calls nonblank_strip split: sum.splits)
qed

text \<open>The body \<open>{"input": " hi "}\<close> is accepted and sends the one user message \<open>hi\<close>.\<close>

theorem C1_accepted_request_shape_witness:
  "credential_configured example_world \<and>
   http_status (fst (chat example_world [u ''input'' \<mapsto> JStr (u '' hi '')])) \<noteq> 400 \<and>
   \<not> messages_is_list ([u ''input'' \<mapsto> JStr (u '' hi '')] :: rat body) \<and>
   map messages (snd (chat example_world [u ''input'' \<mapsto> JStr (u '' hi '')])) =
     [[user_message (u ''hi'')]]"
proof -
  let ?b = "[u ''input'' \<mapsto> JStr (u '' hi '')] :: rat body"
  have h: "http_status (fst (chat example_world ?b)) \<noteq> 400"
    by (simp add: chat_def example_world_def keys_distinct py_or_def dict_get_def
          dict_get_default_def strip_def isspace_def http_status_def u_def Let_def)
  have n: "length (snd (chat example_world ?b)) = 1"
    by (simp add: chat_def example_world_def keys_distinct py_or_def dict_get_def
          dict_get_default_def strip_def isspace_def u_def Let_def)
  have m: "\<not> messages_is_list ?b"
    by (simp add: messages_is_list_def keys_distinct)
  have s: "strip (u '' hi '') = u ''hi''"
    by (simp add: strip_def u_def isspace_def)
  from C1_accepted_request_shape [OF example_configured h] m s
  have a: "\<forall>c\<in>set (snd (chat example_world ?b)). messages c = [user_message (u ''hi'')]"
    by (auto simp: messages_is_list_def)
  from n obtain c where c: "snd (chat example_world ?b) = [c]"
    by (cases "snd (chat example_world ?b)") auto
  with a have "map messages (snd (chat example_world ?b)) = [[user_message (u ''hi'')]]"
    by simp
  with example_configured h m show ?thesis by simp
qed

text \<open>
  C2. For a body whose \<open>messages\<close> is absent or not a list and whose \<open>input\<close> is a string
  with non-whitespace content, the message list of the provider call is the one message
  \<open>{"role": "user", "content": t}\<close>, \<open>t\<close> being \<open>input\<close> stripped. The call is made exactly when
  a credential is configured and the temperature coerces to a float, and then once.
\<close>

theorem C2_input_normalization:
  assumes "\<not> messages_is_list body"
    and "body (u ''input'') = Some (JStr s)"
    and "nonblank s"
  shows "map messages (snd (chat w body)) =
           (if credential_configured w \<and> \<not> isl (coerced_temperature w body)
            then [[JObj [(u ''role'', JStr (u ''user'')), (u ''content'', JStr (strip s))]]]
            else [])"
  using chat_calls_input [of body s w] assms by (simp add: user_message_def)

text \<open>The body \<open>{"input": "  Hello  "}\<close> sends \<open>[{"role": "user", "content": "Hello"}]\<close>.\<close>

theorem C2_input_normalization_witness:
  "\<not> messages_is_list ([u ''input'' \<mapsto> JStr (u ''  Hello  '')] :: rat body) \<and>
   nonblank (u ''  Hello  '') \<and>
   map messages (snd (chat example_world [u ''input'' \<mapsto> JStr (u ''  Hello  '')])) =
     [[JObj [(u ''role'', JStr (u ''user'')), (u ''content'', JStr (u ''Hello''))]]]"
proof -
  let ?b = "[u ''input'' \<mapsto> JStr (u ''  Hello  '')] :: rat body"
  have m: "\<not> messages_is_list ?b"
    by (simp add: messages_is_list_def keys_distinct)
  have i: "?b (u ''input'') = Some (JStr (u ''  Hello  ''))" by simp
  have n: "nonblank (u ''  Hello  '')"
    by (simp add: nonblank_def u_def isspace_def)
  have s: "strip (u ''  Hello  '') = u ''Hello''"
    by (simp add: strip_def u_def isspace_def)
  have t: "coerced_temperature example_world ?b = Inr (7 / 10)"
    by (simp add: default_temperature keys_distinct example_world_def)
  from C2_input_normalization [of ?b "u ''  Hello  ''" example_world] m i n s t example_configured
  show ?thesis by simp
qed

text \<open>
  C3. For a body whose \<open>messages\<close> is a list, that list is the message list of the provider
  call as it is, whatever its elements are, and the \<open>input\<close> field is ignored: setting,
  changing or removing it changes neither the result nor the call.
\<close>

theorem C3_messages_precedence:
  assumes "body (u ''messages'') = Some (JList ms)"
  shows "map messages (snd (chat w body)) =
           (if credential_configured w \<and> \<not> isl (coerced_temperature w body) then [ms] else []) \<and>
         (\<forall>x. chat w (body(u ''input'' := x)) = chat w body)"
  using chat_calls_messages [of body ms w] chat_input_ignored [of body ms w] assms by simp

text \<open>A list whose elements are no role and content pairs, beside an \<open>input\<close>.\<close>

theorem C3_messages_precedence_witness:
  "map messages (snd (chat example_world
      [u ''messages'' \<mapsto> JList [JInt 3, JObj [(u ''role'', JNull)]], u ''input'' \<mapsto> JStr (u ''hi'')])) =
     [[JInt 3, JObj [(u ''role'', JNull)]]] \<and>
   chat example_world [u ''messages'' \<mapsto> JList [JInt 3, JObj [(u ''role'', JNull)]], u ''input'' \<mapsto> JStr (u ''hi'')] =
   chat example_world [u ''messages'' \<mapsto> JList [JInt 3, JObj [(u ''role'', JNull)]]]"
proof -
  let ?ms = "[JInt 3, JObj [(u ''role'', JNull)]] :: rat json list"
  let ?b = "[u ''messages'' \<mapsto> JList ?ms] :: rat body"
  let ?b' = "[u ''messages'' \<mapsto> JList ?ms, u ''input'' \<mapsto> JStr (u ''hi'')] :: rat body"
  have m: "?b (u ''messages'') = Some (JList ?ms)" by simp
  have m': "?b' (u ''messages'') = Some (JList ?ms)" by (simp add: keys_distinct)
  have t: "coerced_temperature example_world ?b' = Inr (7 / 10)"
    by (simp add: default_temperature keys_distinct example_world_def)
  have e: "?b' = ?b(u ''input'' := Some (JStr (u ''hi'')))" by simp
  from C3_messages_precedence [of ?b' ?ms example_world] C3_messages_precedence [of ?b ?ms example_world] m m'
    t e example_configured
  show ?thesis by simp
qed

text \<open>
  C4. With a credential configured, a body whose \<open>messages\<close> is absent or not a list and
  whose \<open>input\<close> is absent, not a string, or blank after trimming fails with HTTP 400 and
  the detail \<open>Provide 'input' (string) or 'messages' (list).\<close>, and no provider call is made.
\<close>

theorem C4_blank_input_rejected:
  assumes "credential_configured w"
    and "\<not> messages_is_list body"
    and "body (u ''input'') = None \<or>
         (\<exists>v. body (u ''input'') = Some v \<and> (\<forall>s. v \<noteq> JStr s)) \<or>
         (\<exists>s. body (u ''input'') = Some (JStr s) \<and> strip s = [])"
  shows "fst (chat w body) =
           Inl (HTTPException 400 (u ''Provide 'input' (string) or 'messages' (list).'')) \<and>
         http_status (fst (chat w body)) = 400 \<and>
         snd (chat w body) = []"
proof -
  from assms(3) have "\<not> input_is_nonblank_str body"
    by (auto simp: input_is_nonblank_str_def nonblank_strip split: option.splits json.splits)
  from chat_rejected [OF assms(1) assms(2) this] show ?thesis
    by (simp add: http_status_def)
qed

text \<open>The bodies \<open>{"input": "   "}\<close>, \<open>{}\<close> and \<open>{"messages": "hello", "input": 3}\<close>.\<close>

theorem C4_blank_input_rejected_witness:
  "credential_configured example_world \<and>
   chat example_world [u ''input'' \<mapsto> JStr (u ''   '')] =
     (Inl (HTTPException 400 (u ''Provide 'input' (string) or 'messages' (list).'')), []) \<and>
   chat example_world Map.empty =
     (Inl (HTTPException 400 (u ''Provide 'input' (string) or 'messages' (list).'')), []) \<and>
   chat example_world [u ''messages'' \<mapsto> JStr (u ''hello''), u ''input'' \<mapsto> JInt 3] =
     (Inl (HTTPException 400 (u ''Provide 'input' (string) or 'messages' (list).'')), [])"
proof -
  have k: "credential_configured example_world"
    by (simp add: credential_configured_def example_world_def u_def)
  have b1: "strip (u ''   '') = []"
    by (simp add: strip_def u_def isspace_def)
  have m1: "\<not> messages_is_list [u ''input'' \<mapsto> JStr (u ''   '')]"
    by (simp add: messages_is_list_def keys_distinct)
  have m2: "\<not> messages_is_list (Map.empty :: rat body)"
    by (simp add: messages_is_list_def)
  have m3: "\<not> messages_is_list [u ''messages'' \<mapsto> JStr (u ''hello''), u ''input'' \<mapsto> JInt 3]"
    by (simp add: messages_is_list_def keys_distinct)
  show ?thesis
    using k C4_blank_input_rejected [OF k m1] C4_blank_input_rejected [OF k m2]
      C4_blank_input_rejected [OF k m3] b1
    by (simp add: prod_eq_iff)
qed

text \<open>
  C5. When no provider credential is configured, \<open>POST /api/chat\<close> fails with HTTP 500 and
  the detail \<open>OPENAI_API_KEY missing\<close> for every request body, whether the body would pass
  validation or not, and no provider call is made.
\<close>

theorem C5_missing_credential:
  "\<not> credential_configured w \<Longrightarrow>
     fst (chat w body) = Inl (HTTPException 500 (u ''OPENAI_API_KEY missing'')) \<and>
     http_status (fst (chat w body)) = 500 \<and>
     snd (chat w body) = []"
  by (simp add: chat_unconfigured http_status_def)

text \<open>
  Without a key the empty body, which validation would reject, gets 500 and not 400; so
  does a valid body when the key is the empty string.
\<close>

theorem C5_missing_credential_witness:
  "\<not> credential_configured (example_world\<lparr>OPENAI_API_KEY := None\<rparr>) \<and>
   chat (example_world\<lparr>OPENAI_API_KEY := None\<rparr>) Map.empty =
     (Inl (HTTPException 500 (u ''OPENAI_API_KEY missing'')), []) \<and>
   \<not> credential_configured (example_world\<lparr>OPENAI_API_KEY := Some []\<rparr>) \<and>
   chat (example_world\<lparr>OPENAI_API_KEY := Some []\<rparr>) [u ''input'' \<mapsto> JStr (u ''hi'')] =
     (Inl (HTTPException 500 (u ''OPENAI_API_KEY missing'')), [])"
proof -
  have h1: "\<not> credential_configured (example_world\<lparr>OPENAI_API_KEY := None\<rparr>)"
    by (simp add: credential_configured_def)
  have h2: "\<not> credential_configured (example_world\<lparr>OPENAI_API_KEY := Some []\<rparr>)"
    by (simp add: credential_configured_def)
  show ?thesis
    using h1 h2 C5_missing_credential [OF h1, of Map.empty]
      C5_missing_credential [OF h2, of "[u ''input'' \<mapsto> JStr (u ''hi'')]"]
    by (simp add: prod_eq_iff)
qed

text \<open>
  C6, as stated, fails: in the body \<open>{"model": 0, "input": "hi"}\<close> the \<open>model\<close> field is
  present and is not an empty value, so the specification resolves the model to \<open>0\<close>; the
  code sends the default to the provider and echoes the default.
\<close>

theorem C6_counterexample:
  "map model (snd (chat example_world [u ''model'' \<mapsto> JInt 0, u ''input'' \<mapsto> JStr (u ''hi'')])) =
     [JStr (u ''gpt-4o-mini'')] \<and>
   fst (chat example_world [u ''model'' \<mapsto> JInt 0, u ''input'' \<mapsto> JStr (u ''hi'')]) =
     Inr (JObj [(u ''model'', JStr (u ''gpt-4o-mini'')), (u ''output'', JStr (u ''pong''))]) \<and>
   spec_model ([u ''model'' \<mapsto> JInt 0, u ''input'' \<mapsto> JStr (u ''hi'')] :: rat body) = JInt 0"
  by (simp add: chat_def example_world_def keys_distinct py_or_def dict_get_def
        dict_get_default_def strip_def isspace_def spec_model_def u_def Let_def)

text \<open>
  C6, amended. The resolved model is the body's \<open>model\<close> field when it is present and true
  in Python's sense (not \<open>null\<close>, \<open>false\<close>, a zero, or an empty string, list or object), and
  the literal \<open>gpt-4o-mini\<close> otherwise; for a string that means: the field when it is not
  empty. Every provider call carries the resolved model, and a success response is
  \<open>{"model": m, "output": text}\<close> with the same \<open>m\<close>, after exactly one call with it.
\<close>

theorem C6_resolved_model:
  "(\<forall>c\<in>set (snd (chat w body)). model c = resolved_model w body) \<and>
   (\<forall>out. fst (chat w body) = Inr out \<longrightarrow>
      (\<exists>text. out = JObj [(u ''model'', resolved_model w body), (u ''output'', text)]) \<and>
      map model (snd (chat w body)) = [resolved_model w body]) \<and>
   (\<forall>s. body (u ''model'') = Some (JStr s) \<longrightarrow>
      resolved_model w body = (if s = [] then JStr (u ''gpt-4o-mini'') else JStr s)) \<and>
   (body (u ''model'') = None \<longrightarrow> resolved_model w body = JStr (u ''gpt-4o-mini''))"
proof -
  have r: "(\<forall>s. body (u ''model'') = Some (JStr s) \<longrightarrow>
      resolved_model w body = (if s = [] then JStr (u ''gpt-4o-mini'') else JStr s)) \<and>
   (body (u ''model'') = None \<longrightarrow> resolved_model w body = JStr (u ''gpt-4o-mini''))"
    by (simp add: resolved_model_def)
  have "(\<forall>c\<in>set (snd (chat w body)). model c = resolved_model w body) \<and>
   (\<forall>out. fst (chat w body) = Inr out \<longrightarrow>
      (\<exists>text. out = JObj [(u ''model'', resolved_model w body), (u ''output'', text)]) \<and>
      map model (snd (chat w body)) = [resolved_model w body])"
  proof (cases rule: chat_cases [of w body])
    case unconfigured
    then show ?thesis by simp
  next
    case rejected
    then show ?thesis by simp
  next
    case (messages ms)
    then show ?thesis
      using provider_stage_model [of w "resolved_model w body" ms "coerced_temperature w body"]
      by simp
  next
    case (input s)
    then show ?thesis
      using provider_stage_model [of w "resolved_model w body" "[user_message (strip s)]" "coerced_temperature w body"]
      by simp
  qed
  with r show ?thesis by simp
qed

text \<open>A model given, no model given, and the empty string as model.\<close>

theorem C6_resolved_model_witness:
  "chat example_world [u ''model'' \<mapsto> JStr (u ''gpt-4o''), u ''input'' \<mapsto> JStr (u ''hi'')] =
     (Inr (JObj [(u ''model'', JStr (u ''gpt-4o'')), (u ''output'', JStr (u ''pong''))]),
      [Call (JStr (u ''gpt-4o'')) [user_message (u ''hi'')] (7 / 10)]) \<and>
   resolved_model example_world [u ''model'' \<mapsto> JStr (u ''gpt-4o''), u ''input'' \<mapsto> JStr (u ''hi'')] =
     JStr (u ''gpt-4o'') \<and>
   resolved_model example_world [u ''input'' \<mapsto> JStr (u ''hi'')] = JStr (u ''gpt-4o-mini'') \<and>
   resolved_model example_world [u ''model'' \<mapsto> JStr []] = JStr (u ''gpt-4o-mini'')"
proof -
  let ?b = "[u ''model'' \<mapsto> JStr (u ''gpt-4o''), u ''input'' \<mapsto> JStr (u ''hi'')] :: rat body"
  let ?bi = "[u ''input'' \<mapsto> JStr (u ''hi'')] :: rat body"
  let ?be = "[u ''model'' \<mapsto> JStr []] :: rat body"
  have v: "chat example_world ?b =
     (Inr (JObj [(u ''model'', JStr (u ''gpt-4o'')), (u ''output'', JStr (u ''pong''))]),
      [Call (JStr (u ''gpt-4o'')) [user_message (u ''hi'')] (7 / 10)])"
    by (simp add: chat_def example_world_def keys_distinct py_or_def dict_get_def
          dict_get_default_def strip_def isspace_def user_message_def u_def Let_def)
  have m: "?b (u ''model'') = Some (JStr (u ''gpt-4o''))" "?bi (u ''model'') = None"
     "?be (u ''model'') = Some (JStr [])"
    by (simp_all add: keys_distinct)
  have n: "u ''gpt-4o'' \<noteq> []" by (simp add: u_def)
  from C6_resolved_model [of example_world ?b] C6_resolved_model [of example_world ?bi]
    C6_resolved_model [of example_world ?be] m n
  have "resolved_model example_world ?b = JStr (u ''gpt-4o'')"
    "resolved_model example_world ?bi = JStr (u ''gpt-4o-mini'')"
    "resolved_model example_world ?be = JStr (u ''gpt-4o-mini'')"
    by simp_all
  with v show ?thesis by simp
qed

text \<open>
  C7. For a request that reaches the \<open>try\<close> block (credential configured, messages
  resolved), a failing coercion of \<open>temperature\<close> gives HTTP 500 with the detail
  \<open>OpenAI error: \<close> followed by the text of the exception, and no provider call; a
  \<open>temperature\<close> that is \<open>null\<close>, a list or an object always fails so. An exception raised
  by the provider call gives the same with the text of that exception, as does an answer
  without choices (the \<open>IndexError\<close> of \<open>resp.choices[0]\<close>). No retry is attempted: a
  request makes at most one provider call.
\<close>

theorem C7_provider_failure:
  "(credential_configured w \<and> (messages_is_list body \<or> input_is_nonblank_str body) \<and>
      coerced_temperature w body = Inl e \<longrightarrow>
      chat w body = (Inl (HTTPException 500 (u ''OpenAI error: '' @ str e)), [])) \<and>
   (credential_configured w \<and> (messages_is_list body \<or> input_is_nonblank_str body) \<and>
      body (u ''temperature'') = Some v \<and> neither_number_nor_string v \<longrightarrow>
      chat w body =
        (Inl (HTTPException 500 (u ''OpenAI error: '' @ str (float_type_error w v))), [])) \<and>
   (c \<in> set (snd (chat w body)) \<and> create w c = Inl e \<longrightarrow>
      chat w body = (Inl (HTTPException 500 (u ''OpenAI error: '' @ str e)), [c])) \<and>
   (c \<in> set (snd (chat w body)) \<and> create w c = Inr (ChatCompletion []) \<longrightarrow>
      chat w body = (Inl (HTTPException 500 (u ''OpenAI error: list index out of range'')), [c])) \<and>
   length (snd (chat w body)) \<le> 1"
proof -
  have ty: "body (u ''temperature'') = Some v \<and> neither_number_nor_string v \<longrightarrow>
      coerced_temperature w body = Inl (float_type_error w v)"
    by (cases v) (simp_all add: coerced_temperature_def dict_get_default_def)
  show ?thesis
  proof (cases rule: chat_cases [of w body])
    case unconfigured
    then show ?thesis by simp
  next
    case rejected
    then show ?thesis by simp
  next
    case (messages ms)
    then have "messages_is_list body" by (simp add: messages_is_list_def)
    with messages show ?thesis
      using ty provider_stage_call_fails
        [of c w "resolved_model w body" ms "coerced_temperature w body" e]
      by (auto simp: provider_stage_coercion_fails provider_stage_calls split: sum.splits)
  next
    case (input s)
    then show ?thesis
      using ty provider_stage_call_fails
        [of c w "resolved_model w body" "[user_message (strip s)]" "coerced_temperature w body" e]
      by (auto simp: provider_stage_coercion_fails provider_stage_calls split: sum.splits)
  qed
qed

text \<open>
  A string and a \<open>null\<close> as temperature, a provider that raises, and a provider that
  answers without choices.
\<close>

theorem C7_provider_failure_witness:
  "chat example_world [u ''input'' \<mapsto> JStr (u ''hi''), u ''temperature'' \<mapsto> JStr (u ''hot'')] =
     (Inl (HTTPException 500 (u ''OpenAI error: could not convert string to float'')), []) \<and>
   chat example_world [u ''input'' \<mapsto> JStr (u ''hi''), u ''temperature'' \<mapsto> JNull] =
     (Inl (HTTPException 500
        (u ''OpenAI error: float() argument must be a string or a real number'')), []) \<and>
   chat (example_world\<lparr>create := \<lambda>c. Inl (Exception (u ''Connection error.''))\<rparr>)
        [u ''input'' \<mapsto> JStr (u ''hi'')] =
     (Inl (HTTPException 500 (u ''OpenAI error: Connection error.'')),
      [Call (JStr (u ''gpt-4o-mini'')) [user_message (u ''hi'')] (7 / 10)]) \<and>
   chat (example_world\<lparr>create := \<lambda>c. Inr (ChatCompletion [])\<rparr>)
        [u ''input'' \<mapsto> JStr (u ''hi'')] =
     (Inl (HTTPException 500 (u ''OpenAI error: list index out of range'')),
      [Call (JStr (u ''gpt-4o-mini'')) [user_message (u ''hi'')] (7 / 10)])"
proof -
  let ?b = "[u ''input'' \<mapsto> JStr (u ''hi'')] :: rat body"
  let ?bt = "[u ''input'' \<mapsto> JStr (u ''hi''), u ''temperature'' \<mapsto> JStr (u ''hot'')] :: rat body"
  let ?bn = "[u ''input'' \<mapsto> JStr (u ''hi''), u ''temperature'' \<mapsto> JNull] :: rat body"
  let ?c = "Call (JStr (u ''gpt-4o-mini'')) [user_message (u ''hi'')] (7 / 10) :: rat call"
  let ?wr = "example_world\<lparr>create := \<lambda>c. Inl (Exception (u ''Connection error.''))\<rparr>"
  let ?we = "example_world\<lparr>create := \<lambda>c. Inr (ChatCompletion [])\<rparr>"
  let ?ev = "Exception (u ''could not convert string to float'')"
  let ?et = "Exception (u ''float() argument must be a string or a real number'')"
  let ?ec = "Exception (u ''Connection error.'')"
  have i: "input_is_nonblank_str ?bt" "input_is_nonblank_str ?bn"
    by (simp_all add: input_is_nonblank_str_def nonblank_def keys_distinct u_def isspace_def)
  have t: "coerced_temperature example_world ?bt = Inl ?ev"
    by (simp add: coerced_temperature_def dict_get_default_def example_world_def)
  have n: "?bn (u ''temperature'') = Some JNull" "float_type_error example_world JNull = ?et"
    by (simp_all add: example_world_def)
  have cr: "?c \<in> set (snd (chat ?wr ?b))"
    by (simp add: chat_def example_world_def keys_distinct py_or_def dict_get_def
          dict_get_default_def strip_def isspace_def user_message_def u_def Let_def)
  have ce: "?c \<in> set (snd (chat ?we ?b))"
    by (simp add: chat_def example_world_def keys_distinct py_or_def dict_get_def
          dict_get_default_def strip_def isspace_def user_message_def u_def Let_def)
  have er: "create ?wr ?c = Inl ?ec" by simp
  have ee: "create ?we ?c = Inr (ChatCompletion [])" by simp
  from C7_provider_failure [of example_world ?bt ?ev JNull ?c]
    i(1) t example_configured
  have r1: "chat example_world ?bt = (Inl (HTTPException 500 (u ''OpenAI error: '' @ str ?ev)), [])"
    by simp
  from C7_provider_failure [of example_world ?bn ?et JNull ?c]
    i(2) n example_configured
  have r2: "chat example_world ?bn = (Inl (HTTPException 500 (u ''OpenAI error: '' @ str ?et)), [])"
    by simp
  from C7_provider_failure [of ?wr ?b ?ec JNull ?c] cr er
  have r3: "chat ?wr ?b = (Inl (HTTPException 500 (u ''OpenAI error: '' @ str ?ec)), [?c])"
    by simp
  from C7_provider_failure [of ?we ?b ?ec JNull ?c] ce ee
  have r4: "chat ?we ?b = (Inl (HTTPException 500 (u ''OpenAI error: list index out of range'')), [?c])"
    by simp
  from r1 r2 r3 r4 show ?thesis by (simp add: u_append [symmetric])
qed

text \<open>
  C8. \<open>GET /api/health\<close> returns, in every world, the body \<open>{ok: true, provider: p}\<close> where
  \<open>p\<close> is \<open>openai\<close> if and only if a credential is configured and \<open>unset\<close> otherwise. The
  handler is a function of the world alone and always returns: nothing in it can raise.
\<close>

theorem C8_health:
  "health w =
     [(u ''ok'', JBool True),
      (u ''provider'', JStr (if credential_configured w then u ''openai'' else u ''unset''))] \<and>
   (map_of (health w) (u ''provider'') = Some (JStr (u ''openai'')) \<longleftrightarrow> credential_configured w) \<and>
   (map_of (health w) (u ''provider'') = Some (JStr (u ''unset'')) \<longleftrightarrow> \<not> credential_configured w) \<and>
   map_of (health w) (u ''ok'') = Some (JBool True)"
proof -
  have "u ''provider'' \<noteq> u ''ok''" "u ''openai'' \<noteq> u ''unset''" "u ''unset'' \<noteq> u ''openai''"
    by (simp_all add: u_def)
  then show ?thesis
    by (simp add: health_def credential_configured_def)
qed

text \<open>With a key, and without one.\<close>

theorem C8_health_witness:
  "health example_world = [(u ''ok'', JBool True), (u ''provider'', JStr (u ''openai''))] \<and>
   health (example_world\<lparr>OPENAI_API_KEY := None\<rparr>) =
     [(u ''ok'', JBool True), (u ''provider'', JStr (u ''unset''))]"
proof -
  have k: "credential_configured example_world"
    by (simp add: credential_configured_def example_world_def u_def)
  have n: "\<not> credential_configured (example_world\<lparr>OPENAI_API_KEY := None\<rparr>)"
    by (simp add: credential_configured_def)
  show ?thesis
    using k n C8_health [of example_world] C8_health [of "example_world\<lparr>OPENAI_API_KEY := None\<rparr>"]
    by simp
qed

text \<open>
  C9, as stated, fails, in two ways. When \<open>index.html\<close> exists and reading it raises (a
  byte that is not UTF-8, a directory in its place), the handler returns neither the file
  nor the fallback: it raises. And a file that reads well is not always returned
  verbatim: the contents \<open>a CR LF b\<close> come back as \<open>a LF b\<close>.
\<close>

theorem C9_counterexample:
  "root_page (example_world\<lparr>index_html := File [CHR 0xFF]\<rparr>) =
     Inl (Exception (u ''invalid start byte'')) \<and>
   root_page (example_world\<lparr>index_html := Unreadable (Exception (u ''Is a directory''))\<rparr>) =
     Inl (Exception (u ''Is a directory'')) \<and>
   utf8_decode (map of_char [CHR ''a'', CHR 0x0D, CHR 0x0A, CHR ''b'']) = Some [97, 13, 10, 98] \<and>
   root_page (example_world\<lparr>index_html := File [CHR ''a'', CHR 0x0D, CHR 0x0A, CHR ''b'']\<rparr>) =
     Inr (HTMLResponse [97, 10, 98])"
proof -
  have x: "utf8_decode [255] = None" by simp
  have n: "utf8_decode [97, 13, 10, 98] = Some [97, 13, 10, 98]"
    by (simp add: utf8_decode_ascii_Cons del: utf8_decode.simps(2))
  show ?thesis
    by (simp add: root_page_def read_text_def example_world_def x n del: utf8_decode.simps(2))
qed

text \<open>
  C9, amended. \<open>GET /\<close> returns with status 200, as HTML:
  \<^item> when no index file exists, exactly the fallback fragment;
  \<^item> when the file exists, opens and holds well-formed UTF-8, the text its bytes spell, with
    every CR LF pair and every other CR replaced by LF; that is the text verbatim exactly
    when it holds no CR, and for a file of ASCII bytes without CR it is the bytes
    themselves.
  When the path exists and cannot be opened, or its bytes are not well-formed UTF-8, the
  exception leaves the handler.
\<close>

theorem C9_root_page:
  "(index_html w = Absent \<longrightarrow> root_page w = Inr (HTMLResponse fallback_html)) \<and>
   (index_html w = File bs \<and> utf8_decode (map of_char bs) = Some text \<longrightarrow>
      root_page w = Inr (HTMLResponse (universal_newlines text)) \<and>
      (universal_newlines text = text \<longleftrightarrow> 13 \<notin> set text)) \<and>
   (index_html w = File bs \<and> (\<forall>b\<in>set bs. (of_char b :: nat) < 128 \<and> (of_char b :: nat) \<noteq> 13) \<longrightarrow>
      root_page w = Inr (HTMLResponse (map of_char bs))) \<and>
   (index_html w = File bs \<and> utf8_decode (map of_char bs) = None \<longrightarrow>
      root_page w = Inl (decode_error w bs)) \<and>
   (index_html w = Unreadable e \<longrightarrow> root_page w = Inl e) \<and>
   resp_status (HTMLResponse c) = 200 \<and> media_type (HTMLResponse c) = u ''text/html'' \<and>
   resp_content (HTMLResponse c) = c \<and>
   fallback_html = u ''<h1>AI Hub Backend</h1><p>Index bulunamad'' @ [305] @ u ''.</p>''"
proof -
  have ascii: "root_page w = Inr (HTMLResponse (map of_char bs))"
    if f: "index_html w = File bs"
      and a: "\<forall>b\<in>set bs. (of_char b :: nat) < 128 \<and> (of_char b :: nat) \<noteq> 13"
  proof -
    from a have "\<forall>n\<in>set (map of_char bs :: nat list). n < 128" by auto
    then have d: "utf8_decode (map of_char bs) = Some (map of_char bs)"
      by (rule utf8_decode_ascii)
    from a have "13 \<notin> set (map of_char bs :: nat list)" by auto
    then have "universal_newlines (map of_char bs) = map of_char bs"
      by (rule universal_newlines_id)
    with f d show ?thesis by (simp add: root_page_def read_text_def)
  qed
  show ?thesis
    using ascii
    by (simp add: root_page_def read_text_def HTMLResponse_def fallback_html_def
          universal_newlines_verbatim_iff)
qed

text \<open>
  No file; an ASCII file; a file with CR LF; a file that is not UTF-8; a directory in the
  file's place.
\<close>

theorem C9_root_page_witness:
  "root_page example_world = Inr (HTMLResponse fallback_html) \<and>
   root_page (example_world\<lparr>index_html := File ''<html></html>''\<rparr>) =
     Inr \<lparr>resp_status = 200, media_type = u ''text/html'', resp_content = u ''<html></html>''\<rparr> \<and>
   root_page (example_world\<lparr>index_html := File [CHR ''a'', CHR 0x0D, CHR 0x0A, CHR ''b'']\<rparr>) =
     Inr (HTMLResponse [97, 10, 98]) \<and>
   root_page (example_world\<lparr>index_html := File [CHR 0xC4, CHR 0xB1]\<rparr>) =
     Inr (HTMLResponse [305]) \<and>
   root_page (example_world\<lparr>index_html := File [CHR 0xC4]\<rparr>) =
     Inl (Exception (u ''invalid start byte'')) \<and>
   root_page (example_world\<lparr>index_html := Unreadable (Exception (u ''Is a directory''))\<rparr>) =
     Inl (Exception (u ''Is a directory''))"
proof -
  let ?h = "''<html></html>''"
  let ?n = "[CHR ''a'', CHR 0x0D, CHR 0x0A, CHR ''b'']"
  let ?i = "[CHR 0xC4, CHR 0xB1]"
  let ?x = "[CHR 0xC4]"
  let ?e = "Exception (u ''Is a directory'')"
  have a: "index_html example_world = Absent" by (simp add: example_world_def)
  have h: "\<forall>b\<in>set ?h. (of_char b :: nat) < 128 \<and> (of_char b :: nat) \<noteq> 13" by simp
  have n: "utf8_decode (map of_char ?n) = Some [97, 13, 10, 98]"
    by (simp add: utf8_decode_ascii_Cons del: utf8_decode.simps(2))
  have i: "utf8_decode (map of_char ?i) = Some [305]"
    by (simp add: continuation_def)
  have x: "utf8_decode (map of_char ?x) = None" by simp
  have d: "decode_error (example_world\<lparr>index_html := File ?x\<rparr>) ?x =
             Exception (u ''invalid start byte'')"
    by (simp add: example_world_def)
  from C9_root_page [of example_world ?h "[]" ?e "[]"] a
  have r1: "root_page example_world = Inr (HTMLResponse fallback_html)" by simp
  from C9_root_page [of "example_world\<lparr>index_html := File ?h\<rparr>" ?h "[]" ?e "[]"] h
  have r2: "root_page (example_world\<lparr>index_html := File ?h\<rparr>) = Inr (HTMLResponse (map of_char ?h))"
    by simp
  from C9_root_page [of "example_world\<lparr>index_html := File ?n\<rparr>" ?n "[97, 13, 10, 98]" ?e "[]"] n
  have r3: "root_page (example_world\<lparr>index_html := File ?n\<rparr>) = Inr (HTMLResponse [97, 10, 98])"
    by simp
  from C9_root_page [of "example_world\<lparr>index_html := File ?i\<rparr>" ?i "[305]" ?e "[]"] i
  have r4: "root_page (example_world\<lparr>index_html := File ?i\<rparr>) = Inr (HTMLResponse [305])"
    by simp
  from C9_root_page [of "example_world\<lparr>index_html := File ?x\<rparr>" ?x "[]" ?e "[]"] x d
  have r5: "root_page (example_world\<lparr>index_html := File ?x\<rparr>) = Inl (Exception (u ''invalid start byte''))"
    by simp
  from C9_root_page [of "example_world\<lparr>index_html := Unreadable ?e\<rparr>" ?h "[]" ?e "[]"]
  have r6: "root_page (example_world\<lparr>index_html := Unreadable ?e\<rparr>) = Inl ?e"
    by simp
  from r1 r2 r3 r4 r5 r6 show ?thesis by (simp add: HTMLResponse_def u_def)
qed

text \<open>
  C10. A body whose \<open>messages\<close> is the empty list is accepted: with a credential configured
  the status is not 400, whatever \<open>input\<close> is, and the empty list is the message list of the
  provider call. The status 400 is reached only when \<open>messages\<close> is absent or not a list.
\<close>

theorem C10_empty_messages_accepted:
  "(credential_configured w \<and> body (u ''messages'') = Some (JList []) \<longrightarrow>
      http_status (fst (chat w body)) \<noteq> 400 \<and>
      map messages (snd (chat w body)) = (if isl (coerced_temperature w body) then [] else [[]])) \<and>
   (http_status (fst (chat w body)) = 400 \<longrightarrow> \<not> messages_is_list body)"
proof (intro conjI impI)
  assume a: "credential_configured w \<and> body (u ''messages'') = Some (JList [])"
  then have c: "chat w body = provider_stage w (resolved_model w body) [] (coerced_temperature w body)"
    by (simp add: chat_messages)
  show "http_status (fst (chat w body)) \<noteq> 400"
    by (simp add: c provider_stage_status)
  show "map messages (snd (chat w body)) = (if isl (coerced_temperature w body) then [] else [[]])"
    by (simp add: c provider_stage_calls split: sum.splits)
next
  assume s: "http_status (fst (chat w body)) = 400"
  show "\<not> messages_is_list body"
  proof
    assume "messages_is_list body"
    then obtain ms where ms: "body (u ''messages'') = Some (JList ms)"
      by (auto simp: messages_is_list_def split: option.splits json.splits)
    show False
    proof (cases "credential_configured w")
      case True
      from chat_messages [of w body ms] True ms s show False
        by (simp add: provider_stage_status)
    next
      case False
      with s show False by (simp add: chat_unconfigured http_status_def)
    qed
  qed
qed

text \<open>
  The body \<open>{"messages": [], "input": "  "}\<close> is answered with the provider's text, and
  \<open>{"messages": 1}\<close> with 400.
\<close>

theorem C10_empty_messages_accepted_witness:
  "chat example_world [u ''messages'' \<mapsto> JList [], u ''input'' \<mapsto> JStr (u ''  '')] =
     (Inr (JObj [(u ''model'', JStr (u ''gpt-4o-mini'')), (u ''output'', JStr (u ''pong''))]),
      [Call (JStr (u ''gpt-4o-mini'')) [] (7 / 10)]) \<and>
   http_status (fst (chat example_world [u ''messages'' \<mapsto> JList [], u ''input'' \<mapsto> JStr (u ''  '')])) \<noteq> 400 \<and>
   http_status (fst (chat example_world [u ''messages'' \<mapsto> JInt 1])) = 400 \<and>
   \<not> messages_is_list [u ''messages'' \<mapsto> (JInt 1 :: rat json)]"
proof -
  let ?b = "[u ''messages'' \<mapsto> JList [], u ''input'' \<mapsto> JStr (u ''  '')] :: rat body"
  let ?c = "[u ''messages'' \<mapsto> JInt 1] :: rat body"
  have m: "?b (u ''messages'') = Some (JList [])" by (simp add: keys_distinct)
  have v: "chat example_world ?b =
     (Inr (JObj [(u ''model'', JStr (u ''gpt-4o-mini'')), (u ''output'', JStr (u ''pong''))]),
      [Call (JStr (u ''gpt-4o-mini'')) [] (7 / 10)])"
    by (simp add: chat_def example_world_def keys_distinct py_or_def dict_get_def
          dict_get_default_def u_def Let_def)
  have r: "http_status (fst (chat example_world ?c)) = 400"
    by (simp add: chat_def example_world_def keys_distinct py_or_def dict_get_def
          dict_get_default_def u_def http_status_def Let_def)
  from C10_empty_messages_accepted [of example_world ?b]
    C10_empty_messages_accepted [of example_world ?c] m v r example_configured
  show ?thesis by simp
qed

end
